theory Spec2Isabelle
  imports Complex_Main "HOL-Library.Sublist"
begin

section \<open>JavaScript values\<close>

text \<open>
  The gateway is TypeScript. Strings are lists of characters (code units below 256),
  \<open>null\<close> and \<open>undefined\<close> of an optional value are \<open>None\<close>, and a value of type
  \<open>any\<close> that the code parses, inspects or serialises is a JSON value. An object is the
  list of its properties, each name once, in enumeration order. Numbers are the
  integers (timestamps apart, see the liveness monitor).
\<close>

datatype json =
    JNull
  | JBool bool
  | JNum int
  | JStr string
  | JArr "json list"
  | JObj "(string \<times> json) list"

text \<open>A thrown value is an \<open>Error\<close> object: its name and its message.\<close>

datatype js_exn = JsError string string

text \<open>\<open>Error.prototype.toString\<close>.\<close>

fun toString :: "js_exn \<Rightarrow> string" where
  "toString (JsError name msg) =
     (if name = [] then msg else if msg = [] then name else name @ '': '' @ msg)"

text \<open>Truthiness, of a JSON value and of optional values.\<close>

fun truthy :: "json \<Rightarrow> bool" where
  "truthy JNull = False"
| "truthy (JBool b) = b"
| "truthy (JNum n) = (n \<noteq> 0)"
| "truthy (JStr s) = (s \<noteq> [])"
| "truthy (JArr vs) = True"
| "truthy (JObj kvs) = True"

fun truthy_opt :: "json option \<Rightarrow> bool" where
  "truthy_opt None = False"
| "truthy_opt (Some v) = truthy v"

fun truthy_str :: "string option \<Rightarrow> bool" where
  "truthy_str None = False"
| "truthy_str (Some s) = (s \<noteq> [])"

text \<open>
  Property access \<open>v.k\<close> on a value that is not \<open>null\<close> (the code tests the value
  before every access modelled with \<open>get_prop\<close>): \<open>None\<close> is \<open>undefined\<close>. None of the
  property names the code reads is a property of a string, a number or an array, or
  one that an object inherits.
\<close>

fun get_prop :: "json \<Rightarrow> string \<Rightarrow> json option" where
  "get_prop (JObj kvs) k = map_of kvs k"
| "get_prop v k = None"

subsection \<open>\<open>JSON.stringify\<close>\<close>

definition hexdigit :: "nat \<Rightarrow> char" where
  "hexdigit d = ''0123456789abcdef'' ! (d mod 16)"

text \<open>\<open>QuoteJSONString\<close>, one code unit.\<close>

definition quote_char :: "char \<Rightarrow> string" where
  "quote_char c =
     (if c = CHR 0x22 then [CHR 0x5C, CHR 0x22]
      else if c = CHR 0x5C then [CHR 0x5C, CHR 0x5C]
      else if c = CHR 0x08 then [CHR 0x5C, CHR ''b'']
      else if c = CHR 0x09 then [CHR 0x5C, CHR ''t'']
      else if c = CHR 0x0A then [CHR 0x5C, CHR ''n'']
      else if c = CHR 0x0C then [CHR 0x5C, CHR ''f'']
      else if c = CHR 0x0D then [CHR 0x5C, CHR ''r'']
      else if of_char c < (32::nat) then
        [CHR 0x5C, CHR ''u'', CHR ''0'', CHR ''0'',
         hexdigit (of_char c div 16), hexdigit (of_char c mod 16)]
      else [c])"

definition quote :: "string \<Rightarrow> string" where
  "quote s = [CHR 0x22] @ concat (map quote_char s) @ [CHR 0x22]"

fun digits :: "nat \<Rightarrow> string" where
  "digits n =
     (if n < 10 then [char_of (48 + n)]
      else digits (n div 10) @ [char_of (48 + n mod 10)])"

fun join :: "string \<Rightarrow> string list \<Rightarrow> string" where
  "join sep [] = []"
| "join sep [x] = x"
| "join sep (x # y # ys) = x @ sep @ join sep (y # ys)"

text \<open>
  \<open>SerializeJSONProperty\<close> with the gap and the current indentation: with an empty
  gap the compact form, otherwise one member a line.
\<close>

fun ser :: "string \<Rightarrow> string \<Rightarrow> json \<Rightarrow> string" where
  "ser gap ind JNull = ''null''"
| "ser gap ind (JBool b) = (if b then ''true'' else ''false'')"
| "ser gap ind (JNum n) = (if n < 0 then ''-'' @ digits (nat (- n)) else digits (nat n))"
| "ser gap ind (JStr s) = quote s"
| "ser gap ind (JArr vs) =
     (if vs = [] then ''[]''
      else if gap = [] then ''['' @ join '','' (map (ser gap (ind @ gap)) vs) @ '']''
      else ''['' @ [CHR 0x0A] @ (ind @ gap)
           @ join ('','' @ [CHR 0x0A] @ (ind @ gap)) (map (ser gap (ind @ gap)) vs)
           @ [CHR 0x0A] @ ind @ '']'')"
| "ser gap ind (JObj kvs) =
     (if kvs = [] then ''{}''
      else if gap = [] then
        ''{'' @ join '','' (map (\<lambda>(k, v). quote k @ '':'' @ ser gap (ind @ gap) v) kvs) @ ''}''
      else ''{'' @ [CHR 0x0A] @ (ind @ gap)
           @ join ('','' @ [CHR 0x0A] @ (ind @ gap))
               (map (\<lambda>(k, v). quote k @ '': '' @ ser gap (ind @ gap) v) kvs)
           @ [CHR 0x0A] @ ind @ ''}'')"

text \<open>
  \<open>JSON.stringify(value, null, space)\<close>: \<open>space\<close> is a number or \<open>null\<close>; the gap is
  that many spaces, ten at most. \<open>JSON.stringify(value)\<close> is the call with \<open>None\<close>.
\<close>

definition JSON_stringify :: "json \<Rightarrow> nat option \<Rightarrow> string" where
  "JSON_stringify v space =
     ser (case space of None \<Rightarrow> [] | Some n \<Rightarrow> replicate (min 10 n) CHR '' '') [] v"

section \<open>The server: contexts, effects and the connection registry\<close>

text \<open>
  A WebSocket object is known by its identity. The authenticated user of a context is
  an object with an \<open>id\<close>.
\<close>

type_synonym ws = nat

record user =
  user_id :: string

text \<open>
  Modelled from the spec: the class \<open>ExecutionContext\<close> (\<open>execution-context.ts\<close>) is
  not in the sources. A context holds the configuration it inherits, the authenticated
  user if any, and the connection bound to it if any; a fresh context has neither.
  \<open>getConfig\<close> reads a configuration value, \<open>undefined\<close> when there is none.
\<close>

record exec_context =
  configData :: "string \<Rightarrow> json option"
  user :: "user option"
  websocket :: "ws option"

definition ExecutionContext :: "(string \<Rightarrow> json option) \<Rightarrow> exec_context" where
  "ExecutionContext parentConfigData =
     \<lparr>configData = parentConfigData, user = None, websocket = None\<rparr>"

definition getConfig :: "exec_context \<Rightarrow> string \<Rightarrow> json option" where
  "getConfig ctx key = configData ctx key"

text \<open>
  What the code does to the outside, in the order it does it: frames sent on and
  closing of connections, log lines, calls into the service handlers, the provider
  and the storage, the finishing of a context, and the writing of an HTTP response.
\<close>

datatype effect =
    WsSend ws string
  | WsClose ws
  | LogWarn string
  | LogInfo string
  | LogError js_exn
  | CardMessage string json
  | AppMessage json
  | SocketClosed string
  | HandleMessage ws string
  | HandleClose ws
  | Finish "js_exn option"
  | SetHeader string string
  | Redirect string
  | SendJson json
  | ContentType string
  | Status nat
  | Send string
  | EndResponse
  | GetToken string
  | UserinfoGet json
  | UpsertRecord "json option" "json option" "json option" json json "json option"

text \<open>
  The server's state is the field \<open>activeSocketsByUser\<close>, a plain object \<open>{}\<close> at
  construction: its own properties are the entries that the server has written.
\<close>

record server =
  activeSocketsByUser :: "string \<rightharpoonup> ws list"

definition new_Server :: server where
  "new_Server = \<lparr>activeSocketsByUser = Map.empty\<rparr>"

text \<open>
  A plain object inherits the properties of \<open>Object.prototype\<close>. Read under one of
  these names, an object without an own property of that name gives the inherited
  value: a function, or the prototype itself for \<open>__proto__\<close>; a truthy value that is
  not an array.
\<close>

definition Object_prototype_names :: "string list" where
  "Object_prototype_names =
     [''constructor'', ''__defineGetter__'', ''__defineSetter__'', ''hasOwnProperty'',
      ''__lookupGetter__'', ''__lookupSetter__'', ''isPrototypeOf'',
      ''propertyIsEnumerable'', ''toString'', ''valueOf'', ''__proto__'',
      ''toLocaleString'']"

text \<open>The value of \<open>this.activeSocketsByUser[userId]\<close>.\<close>

datatype slot = Undefined | Sockets "ws list" | Inherited

definition lookupSockets :: "server \<Rightarrow> string \<Rightarrow> slot" where
  "lookupSockets srv userId =
     (case activeSocketsByUser srv userId of
        Some socketList \<Rightarrow> Sockets socketList
      | None \<Rightarrow> if userId \<in> set Object_prototype_names then Inherited else Undefined)"

text \<open>
  \<open>registerClientSocket\<close>: the list of the context's user, made if the lookup is
  falsy, gets the connection pushed at its end. An inherited value is truthy and has
  no \<open>push\<close>: the call throws.
\<close>

definition registerClientSocket :: "server \<Rightarrow> exec_context \<Rightarrow> ws \<Rightarrow> js_exn + server" where
  "registerClientSocket srv ctx w =
     (case user ctx of
        None \<Rightarrow> Inr srv
      | Some u \<Rightarrow>
          (case lookupSockets srv (user_id u) of
             Undefined \<Rightarrow>
               Inr (srv\<lparr>activeSocketsByUser := (activeSocketsByUser srv)(user_id u \<mapsto> [w])\<rparr>)
           | Sockets socketList \<Rightarrow>
               Inr (srv\<lparr>activeSocketsByUser :=
                 (activeSocketsByUser srv)(user_id u \<mapsto> socketList @ [w])\<rparr>)
           | Inherited \<Rightarrow> Inl (JsError ''TypeError'' ''socketList.push is not a function'')))"

text \<open>
  \<open>unregisterClientSocket\<close>: \<open>splice(indexOf(ws), 1)\<close> takes the first occurrence out
  of a list of more than one element; a list of one element goes with its entry. An
  inherited value has no \<open>indexOf\<close>: the call throws.
\<close>

definition unregisterClientSocket :: "server \<Rightarrow> exec_context \<Rightarrow> ws \<Rightarrow> js_exn + server" where
  "unregisterClientSocket srv ctx w =
     (case user ctx of
        None \<Rightarrow> Inr srv
      | Some u \<Rightarrow>
          (case lookupSockets srv (user_id u) of
             Undefined \<Rightarrow> Inr srv
           | Sockets socketList \<Rightarrow>
               if w \<in> set socketList then
                 (if length socketList > 1 then
                    Inr (srv\<lparr>activeSocketsByUser :=
                      (activeSocketsByUser srv)(user_id u \<mapsto> remove1 w socketList)\<rparr>)
                  else
                    Inr (srv\<lparr>activeSocketsByUser :=
                      (activeSocketsByUser srv)(user_id u := None)\<rparr>))
               else Inr srv
           | Inherited \<Rightarrow> Inl (JsError ''TypeError'' ''socketList.indexOf is not a function'')))"


text \<open>
  \<open>deliverMessage\<close>: the frames sent and the error thrown, if any. Multicast
  serialises once with \<open>JSON.stringify(message)\<close> and sends to every connection in the
  user's list; the loop over an inherited value throws before any frame is sent.
  Unicast sends to the connection of the context, serialised with the indentation 3
  when \<open>debug.messages.pretty\<close> is set.
\<close>

definition deliverMessage ::
  "server \<Rightarrow> exec_context \<Rightarrow> json \<Rightarrow> bool \<Rightarrow> effect list \<times> js_exn option" where
  "deliverMessage srv ctx message multicast =
     (if multicast then
        (case user ctx of
           None \<Rightarrow> ([], None)
         | Some u \<Rightarrow>
             (case lookupSockets srv (user_id u) of
                Undefined \<Rightarrow> ([], None)
              | Sockets socketList \<Rightarrow>
                  (let serialized = JSON_stringify message None
                   in (map (\<lambda>w. WsSend w serialized) socketList, None))
              | Inherited \<Rightarrow> ([], Some (JsError ''TypeError'' ''socketList is not iterable''))))
      else
        (case websocket ctx of
           None \<Rightarrow> ([], None)
         | Some w \<Rightarrow>
             ([WsSend w (JSON_stringify message
                 (if truthy_opt (getConfig ctx ''debug.messages.pretty'') then Some 3 else None))],
              None)))"

subsection \<open>Routing of a message received on a connection\<close>

text \<open>
  The user manager and the service handlers are other modules: the server takes them
  as they are given. \<open>onWebsocketEvent\<close> and \<open>onWebsocketOpenRequest\<close> may set the user
  of the context or throw; a service handler has an id and may throw. \<open>JSON.parse\<close> is
  the runtime's: it gives a value or throws a \<open>SyntaxError\<close>.
\<close>

record handler =
  handler_serviceId :: string
  handleClientCardMessage :: "exec_context \<Rightarrow> json \<Rightarrow> js_exn option"
  handleClientSocketClosed :: "exec_context \<Rightarrow> js_exn option"

record server_env =
  JSON_parse :: "string \<Rightarrow> js_exn + json"
  onWebsocketEvent :: "exec_context \<Rightarrow> ws \<Rightarrow> js_exn + exec_context"
  onWebsocketOpenRequest :: "exec_context \<Rightarrow> ws \<Rightarrow> json \<Rightarrow> js_exn + exec_context"
  serviceHandlers :: "handler list"

text \<open>
  The loop over the service handlers: each handler with the message's service id is
  called in turn, and the first that throws ends the loop with its error.
\<close>

fun callCardHandlers ::
  "handler list \<Rightarrow> exec_context \<Rightarrow> json option \<Rightarrow> json \<Rightarrow> effect list \<times> js_exn option" where
  "callCardHandlers [] ctx sid msg = ([], None)"
| "callCardHandlers (h # hs) ctx sid msg =
     (if Some (JStr (handler_serviceId h)) = sid then
        (case handleClientCardMessage h ctx msg of
           Some e \<Rightarrow> ([CardMessage (handler_serviceId h) msg], Some e)
         | None \<Rightarrow>
             (let (effs, r) = callCardHandlers hs ctx sid msg
              in (CardMessage (handler_serviceId h) msg # effs, r)))
      else callCardHandlers hs ctx sid msg)"

text \<open>
  The test \<open>msg.details && msg.details.userId\<close> of an open message: the user
  identifier when both are truthy.
\<close>

definition open_userId :: "json \<Rightarrow> json option" where
  "open_userId msg =
     (case get_prop msg ''details'' of
        None \<Rightarrow> None
      | Some details \<Rightarrow>
          if truthy details then
            (case get_prop details ''userId'' of
               None \<Rightarrow> None
             | Some userId \<Rightarrow> if truthy userId then Some userId else None)
          else None)"

text \<open>
  The body of the \<open>try\<close> of \<open>handleWebsocketMessage\<close>: the new state, the effects and
  the error thrown, if any.
\<close>

definition routeMessage ::
  "server_env \<Rightarrow> server \<Rightarrow> exec_context \<Rightarrow> ws \<Rightarrow> string \<Rightarrow> server \<times> effect list \<times> js_exn option" where
  "routeMessage env srv ctx w message =
     (case JSON_parse env message of
        Inl e \<Rightarrow> (srv, [], Some e)
      | Inr msg \<Rightarrow>
          if \<not> truthy msg then
            (srv, [], Some (JsError ''Error'' (''Unexpected or invalid message: '' @ JSON_stringify (JStr message) None)))
          else if \<not> truthy_opt (get_prop msg ''type'') then
            (srv, [], Some (JsError ''Error'' (''Unexpected or invalid message: '' @ JSON_stringify (JStr message) None)))
          else if get_prop msg ''type'' = Some (JStr ''open'') then
            (case open_userId msg of
               Some userId \<Rightarrow>
                 (case onWebsocketOpenRequest env ctx w userId of
                    Inl e \<Rightarrow> (srv, [], Some e)
                  | Inr ctx' \<Rightarrow>
                      (case user ctx' of
                         None \<Rightarrow> (srv, [], None)
                       | Some u \<Rightarrow>
                           (case registerClientSocket srv ctx' w of
                              Inl e \<Rightarrow> (srv, [], Some e)
                            | Inr srv' \<Rightarrow>
                                (case deliverMessage srv' ctx'
                                        (JObj [(''type'', JStr ''open-success'')]) False of
                                   (effs, r) \<Rightarrow> (srv', effs, r)))))
             | None \<Rightarrow>
                 (case deliverMessage srv ctx
                         (JObj [(''type'', JStr ''open-failed''),
                                (''details'', JObj [(''message'', JStr ''No such user'')])]) False of
                    (effs, r) \<Rightarrow> (srv, LogWarn ''Invalid client open message'' # effs, r)))
          else if truthy_opt (get_prop msg ''serviceId'') \<and> truthy_opt (get_prop msg ''accountId'') then
            (case user ctx of
               Some u \<Rightarrow>
                 (let (effs, r) =
                    callCardHandlers (serviceHandlers env) ctx (get_prop msg ''serviceId'') msg
                  in (srv, effs, r))
             | None \<Rightarrow> (srv, [LogWarn ''Unexpected card client message when no current user''], None))
          else
            (case user ctx of
               Some u \<Rightarrow> (srv, [AppMessage msg], None)
             | None \<Rightarrow> (srv, [LogWarn ''Unexpected app client message when no current user''], None)))"

text \<open>
  \<open>handleWebsocketMessage\<close>: a fresh context bound to the connection, the user
  manager's hook (outside the \<open>try\<close>: when it throws the promise is rejected, the last
  component), the routing, the warning for a caught error, and the finishing of the
  context in the \<open>finally\<close>.
\<close>

definition handleWebsocketMessage ::
  "server_env \<Rightarrow> server \<Rightarrow> (string \<Rightarrow> json option) \<Rightarrow> ws \<Rightarrow> string
     \<Rightarrow> server \<times> effect list \<times> js_exn option" where
  "handleWebsocketMessage env srv parentContextData w message =
     (case onWebsocketEvent env ((ExecutionContext parentContextData)\<lparr>websocket := Some w\<rparr>) w of
        Inl e \<Rightarrow> (srv, [], Some e)
      | Inr ctx \<Rightarrow>
          (case routeMessage env srv ctx w message of
             (srv', effs, None) \<Rightarrow> (srv', effs @ [Finish None], None)
           | (srv', effs, Some err) \<Rightarrow>
               (srv', effs @ [LogWarn ''Exception handling client message'', Finish (Some err)], None)))"

text \<open>
  \<open>handleWebsocketClose\<close>: the hook and the unregistration (both outside the \<open>try\<close>:
  when one throws the promise is rejected), the handlers' notification (the first
  that throws ends the loop) and the finishing of the context.
\<close>

fun callSocketClosed :: "handler list \<Rightarrow> exec_context \<Rightarrow> effect list \<times> js_exn option" where
  "callSocketClosed [] ctx = ([], None)"
| "callSocketClosed (h # hs) ctx =
     (case handleClientSocketClosed h ctx of
        Some e \<Rightarrow> ([SocketClosed (handler_serviceId h)], Some e)
      | None \<Rightarrow>
          (let (effs, r) = callSocketClosed hs ctx in (SocketClosed (handler_serviceId h) # effs, r)))"

definition handleWebsocketClose ::
  "server_env \<Rightarrow> server \<Rightarrow> (string \<Rightarrow> json option) \<Rightarrow> ws
     \<Rightarrow> server \<times> effect list \<times> js_exn option" where
  "handleWebsocketClose env srv parentContextData w =
     (case onWebsocketEvent env (ExecutionContext parentContextData) w of
        Inl e \<Rightarrow> (srv, [LogInfo ''Client socket closed''], Some e)
      | Inr ctx \<Rightarrow>
          (case unregisterClientSocket srv ctx w of
             Inl e \<Rightarrow> (srv, [LogInfo ''Client socket closed''], Some e)
           | Inr srv' \<Rightarrow>
               (let (effs, r) = callSocketClosed (serviceHandlers env) ctx
                in (srv', LogInfo ''Client socket closed'' # effs @ [Finish r], None))))"

section \<open>The HTTP dispatcher\<close>

text \<open>
  Modelled from the spec: the class \<open>RestServiceResult\<close> (\<open>interfaces/rest-server\<close>) is
  not in the sources. Its fields are the four that \<open>handleHttpRequest\<close> reads, in the
  order of the constructor's arguments in \<open>google-provider.ts\<close>: a JSON payload, a
  status code, a raw body and a redirect URL.
\<close>

record RestServiceResult =
  json :: "json option"
  statusCode :: "nat option"
  message :: "string option"
  redirectUrl :: "string option"

text \<open>
  The promise a handler returns is resolved with a result, rejected with an error, or
  never settled.
\<close>

datatype 'a promise = Resolved 'a | Rejected js_exn | Pending

text \<open>The writing of the response from the handler's result.\<close>

definition writeResult :: "RestServiceResult \<Rightarrow> string option \<Rightarrow> effect list" where
  "writeResult result contentType =
     (if truthy_str (redirectUrl result) then
        (case redirectUrl result of Some u \<Rightarrow> [Redirect u] | None \<Rightarrow> [])
      else if truthy_opt (json result) then
        (case json result of Some j \<Rightarrow> [SendJson j] | None \<Rightarrow> [])
      else
        (case contentType of
           Some t \<Rightarrow> if t \<noteq> [] then [ContentType t] else []
         | None \<Rightarrow> [])
        @ (case statusCode result of
             Some c \<Rightarrow> if c \<noteq> 0 then [Status c] else [Status 200]
           | None \<Rightarrow> [Status 200])
        @ (case message result of
             Some m \<Rightarrow> if m \<noteq> [] then [Send m] else [EndResponse]
           | None \<Rightarrow> [EndResponse]))"

text \<open>
  \<open>sendInternalError\<close>: the 500 response. Its last argument is a string, and the body
  is the prefix followed by \<open>JSON.stringify\<close> of that string.
\<close>

definition sendInternalError :: "string \<Rightarrow> effect list" where
  "sendInternalError err =
     [SetHeader ''Content-Type'' ''text/plain'', Status 500,
      Send (''Internal server error: '' @ JSON_stringify (JStr err) None)]"

text \<open>The \<open>catch\<close> of \<open>handleHttpRequest\<close>: log, 500 with \<open>err.toString()\<close>, finish.\<close>

definition catchHttpError :: "js_exn \<Rightarrow> effect list" where
  "catchHttpError err = LogError err # sendInternalError (toString err) @ [Finish (Some err)]"

text \<open>
  \<open>handleHttpRequest\<close>. The hook \<open>initializeHttpContext\<close> (the user manager's, given)
  hydrates the fresh context or throws; it returns nothing, so the handler is always
  called. The handler (given, with the request it closes over) has effects of its own
  and returns a promise; while that promise is pending nothing more happens.
\<close>

definition handleHttpRequest ::
  "(exec_context \<Rightarrow> js_exn + exec_context)
     \<Rightarrow> (exec_context \<Rightarrow> effect list \<times> RestServiceResult promise)
     \<Rightarrow> (string \<Rightarrow> json option) \<Rightarrow> bool \<Rightarrow> string option \<Rightarrow> effect list" where
  "handleHttpRequest initializeHttpContext handler parentConfigData cacheable contentType =
     (if cacheable then []
      else [SetHeader ''Cache-Control'' ''no-cache, no-store, max-age=0, must-revalidate''])
     @ (case initializeHttpContext (ExecutionContext parentConfigData) of
          Inl err \<Rightarrow> catchHttpError err
        | Inr ctx \<Rightarrow>
            (case handler ctx of
               (effs, Rejected err) \<Rightarrow> effs @ catchHttpError err
             | (effs, Pending) \<Rightarrow> effs
             | (effs, Resolved result) \<Rightarrow> effs @ writeResult result contentType @ [Finish None]))"

section \<open>The Google provider\<close>

text \<open>
  A request is its query parameters. The two searchers, the OAuth client, the storage
  and \<open>utils.appendUrlParam\<close> are other modules, taken as they are given: a searcher
  is the id of its descriptor and its OAuth scopes.
\<close>

record request =
  query :: "string \<Rightarrow> string option"

record searcher =
  descriptor_id :: string
  getOauthScopes :: "string list"

record auth_url_options =
  access_type :: string
  scope :: "string list"
  state :: string

record google_env =
  gmailSearcher :: searcher
  googleDriveSearcher :: searcher
  generateAuthUrl :: "auth_url_options \<Rightarrow> string"
  parse :: "string \<Rightarrow> js_exn + json"
  getToken :: "string \<Rightarrow> js_exn + json"
  userinfo_get :: "json \<Rightarrow> js_exn + json"
  upsertRecord :: "json option \<Rightarrow> json option \<Rightarrow> js_exn option"
  appendUrlParam :: "json option \<Rightarrow> string \<Rightarrow> json option \<Rightarrow> string"

subsection \<open>String methods\<close>

text \<open>\<open>s.split(',')\<close>: one piece more than there are separators.\<close>

fun split :: "char \<Rightarrow> string \<Rightarrow> string list" where
  "split c [] = [[]]"
| "split c (x # xs) =
     (if x = c then [] # split c xs
      else (case split c xs of [] \<Rightarrow> [[x]] | y # ys \<Rightarrow> (x # y) # ys))"

definition is_white :: "char \<Rightarrow> bool" where
  "is_white c = (of_char c \<in> {9, 10, 11, 12, 13, 32, 160 :: nat})"

definition trim :: "string \<Rightarrow> string" where
  "trim s = rev (dropWhile is_white (rev (dropWhile is_white s)))"

definition lower_char :: "char \<Rightarrow> char" where
  "lower_char c =
     (let n = (of_char c :: nat)
      in if (65 \<le> n \<and> n \<le> 90) \<or> (192 \<le> n \<and> n \<le> 222 \<and> n \<noteq> 215)
         then char_of (n + 32) else c)"

definition toLowerCase :: "string \<Rightarrow> string" where
  "toLowerCase s = map lower_char s"

subsection \<open>The authorisation request\<close>

text \<open>\<open>addScopes\<close>: each scope not yet in the list is pushed at its end.\<close>

definition addScopes :: "string list \<Rightarrow> string list \<Rightarrow> string list" where
  "addScopes scopes add = fold (\<lambda>a acc. if a \<in> set acc then acc else acc @ [a]) add scopes"

definition base_scopes :: "string list" where
  "base_scopes =
     [''https://www.googleapis.com/auth/userinfo.email'',
      ''https://www.googleapis.com/auth/userinfo.profile'']"

text \<open>
  One turn of the loop over the requested ids: the \<open>switch\<close> on the trimmed,
  lower-cased id, its first case the mail searcher, its second the drive searcher.
  The id pushed to the accepted list is the id as it was requested.
\<close>

definition scopeStep ::
  "google_env \<Rightarrow> string \<Rightarrow> string list \<times> string list \<Rightarrow> string list \<times> string list" where
  "scopeStep env serviceId acc =
     (case acc of (scopes, scopedServiceIds) \<Rightarrow>
        if toLowerCase (trim serviceId) = descriptor_id (gmailSearcher env) then
          (addScopes scopes (getOauthScopes (gmailSearcher env)), scopedServiceIds @ [serviceId])
        else if toLowerCase (trim serviceId) = descriptor_id (googleDriveSearcher env) then
          (addScopes scopes (getOauthScopes (googleDriveSearcher env)), scopedServiceIds @ [serviceId])
        else (scopes, scopedServiceIds))"

text \<open>The options given to \<open>generateAuthUrl\<close> for a user, a callback and an id string.\<close>

definition authUrlOptions :: "google_env \<Rightarrow> string \<Rightarrow> string \<Rightarrow> string \<Rightarrow> auth_url_options" where
  "authUrlOptions env braidUserId callbackUrl serviceIdString =
     (case fold (scopeStep env) (split CHR '','' serviceIdString) (base_scopes, []) of
        (scopes, scopedServiceIds) \<Rightarrow>
          \<lparr>access_type = ''offline'',
           scope = scopes,
           state = JSON_stringify
             (JObj [(''braidUserId'', JStr braidUserId),
                    (''services'', JArr (map JStr scopedServiceIds)),
                    (''clientCallback'', JStr callbackUrl)]) None\<rparr>)"

definition clientError :: "string \<Rightarrow> RestServiceResult" where
  "clientError text =
     \<lparr>json = None, statusCode = Some 400, message = Some text, redirectUrl = None\<rparr>"

definition redirectTo :: "string \<Rightarrow> RestServiceResult" where
  "redirectTo url = \<lparr>json = None, statusCode = None, message = None, redirectUrl = Some url\<rparr>"

definition handleServiceAuthRequest :: "google_env \<Rightarrow> request \<Rightarrow> RestServiceResult" where
  "handleServiceAuthRequest env req =
     (case query req ''braidUserId'' of
        None \<Rightarrow> clientError ''Missing token param''
      | Some braidUserId \<Rightarrow>
          if braidUserId = [] then clientError ''Missing token param''
          else
            (case query req ''callback'' of
               None \<Rightarrow> clientError ''Missing callback param''
             | Some callbackUrl \<Rightarrow>
                 if callbackUrl = [] then clientError ''Missing callback param''
                 else
                   (case query req ''serviceIds'' of
                      None \<Rightarrow> clientError ''Missing serviceIds param''
                    | Some serviceIdString \<Rightarrow>
                        if serviceIdString = [] then clientError ''Missing serviceIds param''
                        else redirectTo (generateAuthUrl env
                               (authUrlOptions env braidUserId callbackUrl serviceIdString)))))"

subsection \<open>The authorisation callback\<close>

text \<open>
  \<open>handleServiceAuthCallback\<close>. \<open>JSON.parse\<close> of a missing state parameter parses the
  text \<open>undefined\<close>. After the two tests, the code is exchanged for tokens, the profile
  is fetched and the account stored; an error of the exchange or of the fetch rejects
  the promise, and one of the storage, or a profile that is \<open>null\<close>, leaves it pending.
\<close>

definition exchangeAndLink ::
  "google_env \<Rightarrow> string \<Rightarrow> json \<Rightarrow> effect list \<times> RestServiceResult promise" where
  "exchangeAndLink env code st =
     (case getToken env code of
        Inl err \<Rightarrow> ([GetToken code], Rejected err)
      | Inr tokens \<Rightarrow>
          (case userinfo_get env tokens of
             Inl profileErr \<Rightarrow> ([GetToken code, UserinfoGet tokens], Rejected profileErr)
           | Inr profile \<Rightarrow>
               if profile = JNull then ([GetToken code, UserinfoGet tokens], Pending)
               else
                 (case upsertRecord env (get_prop st ''braidUserId'') (get_prop profile ''id'') of
                    Some e \<Rightarrow>
                      ([GetToken code, UserinfoGet tokens,
                        UpsertRecord (get_prop st ''braidUserId'') (get_prop profile ''id'')
                          (get_prop profile ''email'') profile tokens (get_prop st ''services'')],
                       Pending)
                  | None \<Rightarrow>
                      ([GetToken code, UserinfoGet tokens,
                        UpsertRecord (get_prop st ''braidUserId'') (get_prop profile ''id'')
                          (get_prop profile ''email'') profile tokens (get_prop st ''services'')],
                       Resolved (redirectTo
                         (appendUrlParam env (get_prop st ''clientCallback'') ''accountId''
                            (get_prop profile ''id'')))))))"

definition handleServiceAuthCallback ::
  "google_env \<Rightarrow> request \<Rightarrow> effect list \<times> RestServiceResult promise" where
  "handleServiceAuthCallback env req =
     (case query req ''code'' of
        None \<Rightarrow> ([], Resolved (clientError ''Auth code is missing''))
      | Some code \<Rightarrow>
          if code = [] then ([], Resolved (clientError ''Auth code is missing''))
          else
            (case parse env (case query req ''state'' of None \<Rightarrow> ''undefined'' | Some s \<Rightarrow> s) of
               Inl e \<Rightarrow> ([], Rejected e)
             | Inr st \<Rightarrow>
                 if \<not> truthy st then ([], Resolved (clientError ''State information is missing''))
                 else if \<not> truthy_opt (get_prop st ''braidUserId'') then
                   ([], Resolved (clientError ''State information is missing''))
                 else if \<not> truthy_opt (get_prop st ''services'') then
                   ([], Resolved (clientError ''State information is missing''))
                 else exchangeAndLink env code st))"

subsection \<open>The e-mail address of a profile\<close>

text \<open>
  \<open>getEmailFromProfile\<close>. A profile is \<open>null\<close> or an object whose \<open>emails\<close> property is
  absent or a list of entries with a type and a value. The first test guards the loop;
  the second reads \<open>profile.emails.length\<close> whenever the profile is not \<open>null\<close>.
\<close>

record email =
  email_type :: string
  email_value :: string

record profile =
  emails :: "email list option"

definition getEmailFromProfile :: "profile option \<Rightarrow> js_exn + string option" where
  "getEmailFromProfile p =
     (case (case p of
              None \<Rightarrow> None
            | Some pr \<Rightarrow>
                (case emails pr of
                   None \<Rightarrow> None
                 | Some es \<Rightarrow> find (\<lambda>e. email_type e = ''account'') es)) of
        Some e \<Rightarrow> Inr (Some (email_value e))
      | None \<Rightarrow>
          (case p of
             None \<Rightarrow> Inr None
           | Some pr \<Rightarrow>
               (case emails pr of
                  None \<Rightarrow> Inl (JsError ''TypeError'' ''Cannot read property length of undefined'')
                | Some es \<Rightarrow>
                    (case es of [] \<Rightarrow> Inr None | e # rest \<Rightarrow> Inr (Some (email_value e))))))"

section \<open>The liveness monitor\<close>

text \<open>
  \<open>handleWebsockets\<close>. Time is what \<open>clock.now()\<close> reads, in milliseconds; the period
  may be odd, so that its half is a fraction. \<open>configured\<close> is the value that
  \<open>getConfig('client.pingPongInterval', 10000)\<close> returns.
\<close>

definition pingPongInterval :: "rat \<Rightarrow> rat" where
  "pingPongInterval configured = (if configured = 0 then 1000 * 60 * 60 * 24 else configured)"

text \<open>The first value of \<open>lastPong\<close>, for a connection accepted at \<open>now\<close>.\<close>

definition initialLastPong :: "rat \<Rightarrow> rat \<Rightarrow> rat" where
  "initialLastPong interval now = now + interval / 2"

text \<open>
  What happens on a connection, each with the clock's reading at that moment: the
  timer fires, a frame arrives (a text, or \<open>None\<close> for a frame that is not a string), or
  the connection has closed.
\<close>

datatype ws_event = Tick rat | Frame rat "string option" | Closed

text \<open>The timer's callback.\<close>

definition onTick :: "ws \<Rightarrow> rat \<Rightarrow> rat \<Rightarrow> rat \<Rightarrow> effect list" where
  "onTick w interval lastPong now =
     (if now - lastPong > interval then
        [LogInfo ''Client socket being closed because of ping-pong timeout'', WsClose w]
      else [WsSend w ''__ping__''])"

text \<open>
  The life of one connection: the effects of its events in turn, \<open>lastPong\<close> threaded
  through. After the close event the timer is cleared and nothing more happens.
\<close>

fun monitor :: "ws \<Rightarrow> rat \<Rightarrow> rat \<Rightarrow> ws_event list \<Rightarrow> effect list" where
  "monitor w interval lastPong [] = []"
| "monitor w interval lastPong (Tick now # evs) =
     onTick w interval lastPong now @ monitor w interval lastPong evs"
| "monitor w interval lastPong (Frame now None # evs) =
     LogWarn ''Invalid message received on socket'' # monitor w interval lastPong evs"
| "monitor w interval lastPong (Frame now (Some m) # evs) =
     (if m = [] then LogWarn ''Invalid message received on socket'' # monitor w interval lastPong evs
      else if m = ''__pong__'' then monitor w interval now evs
      else HandleMessage w m # monitor w interval lastPong evs)"
| "monitor w interval lastPong (Closed # evs) = [HandleClose w]"

definition handleWebsockets :: "rat \<Rightarrow> ws \<Rightarrow> rat \<Rightarrow> ws_event list \<Rightarrow> effect list" where
  "handleWebsockets configured w start evs =
     monitor w (pingPongInterval configured)
       (initialLastPong (pingPongInterval configured) start) evs"

section \<open>Notions used in the statements\<close>

text \<open>The connections registered for a user: none when the user has no entry.\<close>

definition sessions :: "server \<Rightarrow> string \<Rightarrow> ws list" where
  "sessions srv userId =
     (case activeSocketsByUser srv userId of None \<Rightarrow> [] | Some socketList \<Rightarrow> socketList)"



text \<open>A frame sent on a given connection.\<close>

fun is_send_to :: "ws \<Rightarrow> effect \<Rightarrow> bool" where
  "is_send_to w (WsSend w' text) = (w = w')"
| "is_send_to w e = False"

text \<open>
  The specification's words for the scopes of an authorisation request: a requested
  id is recognised when, trimmed and lower-cased, it is the id of one of the two
  sub-services; a recognised id declares the scopes of its sub-service; the union is
  taken in order, each scope kept where it first occurs.
\<close>

definition recognized :: "google_env \<Rightarrow> string \<Rightarrow> bool" where
  "recognized env serviceId =
     (toLowerCase (trim serviceId) = descriptor_id (gmailSearcher env)
      \<or> toLowerCase (trim serviceId) = descriptor_id (googleDriveSearcher env))"

definition declared_scopes :: "google_env \<Rightarrow> string \<Rightarrow> string list" where
  "declared_scopes env serviceId =
     (if toLowerCase (trim serviceId) = descriptor_id (gmailSearcher env)
        then getOauthScopes (gmailSearcher env)
      else if toLowerCase (trim serviceId) = descriptor_id (googleDriveSearcher env)
        then getOauthScopes (googleDriveSearcher env)
      else [])"

definition dedup_first :: "'a list \<Rightarrow> 'a list" where
  "dedup_first xs = rev (remdups (rev xs))"

text \<open>
  The clock readings of the liveness replies among the events of a connection, and
  the value of \<open>lastPong\<close> after them.
\<close>

fun pongs :: "ws_event list \<Rightarrow> rat list" where
  "pongs [] = []"
| "pongs (Frame now (Some m) # evs) = (if m = ''__pong__'' then now # pongs evs else pongs evs)"
| "pongs (e # evs) = pongs evs"

fun lastPongAfter :: "rat \<Rightarrow> ws_event list \<Rightarrow> rat" where
  "lastPongAfter lp [] = lp"
| "lastPongAfter lp (Frame now (Some m) # evs) =
     (if m = ''__pong__'' then lastPongAfter now evs else lastPongAfter lp evs)"
| "lastPongAfter lp (e # evs) = lastPongAfter lp evs"

section \<open>Example inputs\<close>

text \<open>
  A \<open>JSON.parse\<close> that knows the texts of a table and throws on every other text.
\<close>

definition parse_table :: "(string \<times> json) list \<Rightarrow> string \<Rightarrow> js_exn + json" where
  "parse_table tbl s =
     (case map_of tbl s of
        Some v \<Rightarrow> Inr v
      | None \<Rightarrow> Inl (JsError ''SyntaxError'' ''Unexpected token''))"

definition open_U1_text :: string where
  \<open>open_U1_text = ''{"type":"open","details":{"userId":"U1"}}''\<close>

definition open_U1 :: json where
  "open_U1 = JObj [(''type'', JStr ''open''), (''details'', JObj [(''userId'', JStr ''U1'')])]"

text \<open>
  A user manager that authenticates every user identifier, and one that
  authenticates none: it leaves the context without a user.
\<close>

definition accepting_env :: server_env where
  "accepting_env =
     \<lparr>JSON_parse = parse_table [(open_U1_text, open_U1)],
      onWebsocketEvent = (\<lambda>ctx w. Inr ctx),
      onWebsocketOpenRequest =
        (\<lambda>ctx w userId.
           Inr (ctx\<lparr>user := Some \<lparr>user_id = (case userId of JStr s \<Rightarrow> s | _ \<Rightarrow> [])\<rparr>\<rparr>)),
      serviceHandlers = []\<rparr>"

definition rejecting_env :: server_env where
  "rejecting_env = accepting_env\<lparr>onWebsocketOpenRequest := (\<lambda>ctx w userId. Inr ctx)\<rparr>"

definition no_config :: "string \<Rightarrow> json option" where
  "no_config key = None"

definition pretty_config :: "string \<Rightarrow> json option" where
  "pretty_config key = (if key = ''debug.messages.pretty'' then Some (JBool True) else None)"

definition U1_context :: exec_context where
  "U1_context = \<lparr>configData = no_config, user = Some \<lparr>user_id = ''U1''\<rparr>, websocket = Some 7\<rparr>"

text \<open>The server after two open messages for the user U1 on the connection 7.\<close>

definition opened_twice :: server where
  "opened_twice =
     fst (handleWebsocketMessage accepting_env
            (fst (handleWebsocketMessage accepting_env new_Server no_config 7 open_U1_text))
            no_config 7 open_U1_text)"



definition example_google_env :: google_env where
  "example_google_env =
     \<lparr>gmailSearcher = \<lparr>descriptor_id = ''mail'',
         getOauthScopes = [''https://www.googleapis.com/auth/gmail.readonly'']\<rparr>,
      googleDriveSearcher = \<lparr>descriptor_id = ''drive'',
         getOauthScopes = [''https://www.googleapis.com/auth/drive.readonly'']\<rparr>,
      generateAuthUrl = (\<lambda>opts. ''https://accounts.google.com/o/oauth2/auth?access_type=''
         @ access_type opts @ ''&scope='' @ join '' '' (scope opts) @ ''&state='' @ state opts),
      parse = parse_table [],
      getToken = (\<lambda>code. Inr (JObj [(''access_token'', JStr code)])),
      userinfo_get = (\<lambda>tokens. Inr (JObj [(''id'', JStr ''G1'')])),
      upsertRecord = (\<lambda>braidUserId googleUserId. None),
      appendUrlParam = (\<lambda>url name v. [])\<rparr>"

definition query_of :: "(string \<times> string) list \<Rightarrow> request" where
  "query_of params = \<lparr>query = map_of params\<rparr>"

definition no_hydration :: "exec_context \<Rightarrow> js_exn + exec_context" where
  "no_hydration ctx = Inr ctx"

definition failing_hook :: "exec_context \<Rightarrow> js_exn + exec_context" where
  "failing_hook ctx = Inl (JsError ''Error'' ''session store unavailable'')"

definition failing_handler :: "exec_context \<Rightarrow> effect list \<times> RestServiceResult promise" where
  "failing_handler ctx =
     ([], Rejected (JsError ''Error'' ''connect ECONNREFUSED db.internal:27017''))"

text \<open>
  A connection accepted at time 0 with a period of ten seconds that answers each of
  the first two probes within the period.
\<close>

definition answering_client :: "ws_event list" where
  "answering_client =
     [Tick 10000, Frame 10020 (Some ''__pong__''), Tick 20000,
      Frame 20015 (Some ''__pong__''), Tick 30000]"

section \<open>Evaluation of the examples\<close>

lemma stringify_open_success:
  \<open>JSON_stringify (JObj [(''type'', JStr ''open-success'')]) None = ''{"type":"open-success"}''\<close>
  by (simp add: JSON_stringify_def quote_def quote_char_def)

lemma stringify_hello:
  \<open>JSON_stringify (JObj [(''type'', JStr ''hello'')]) None = ''{"type":"hello"}''\<close>
  by (simp add: JSON_stringify_def quote_def quote_char_def)

lemma U1_plain: "''U1'' \<notin> set Object_prototype_names"
  by (simp add: Object_prototype_names_def)

lemma first_open:
  \<open>handleWebsocketMessage accepting_env new_Server no_config 7 open_U1_text
     = (\<lparr>activeSocketsByUser = Map.empty(''U1'' \<mapsto> [7])\<rparr>,
        [WsSend 7 ''{"type":"open-success"}'', Finish None], None)\<close>
  by (simp add: handleWebsocketMessage_def accepting_env_def ExecutionContext_def
      routeMessage_def parse_table_def open_U1_text_def open_U1_def open_userId_def
      registerClientSocket_def lookupSockets_def U1_plain new_Server_def deliverMessage_def
      getConfig_def no_config_def stringify_open_success)

lemma opened_twice_sessions: "activeSocketsByUser opened_twice ''U1'' = Some [7, 7]"
  unfolding opened_twice_def first_open
  by (simp add: handleWebsocketMessage_def accepting_env_def ExecutionContext_def
      routeMessage_def parse_table_def open_U1_text_def open_U1_def open_userId_def
      registerClientSocket_def lookupSockets_def deliverMessage_def getConfig_def no_config_def)



lemma user_U1_context: "user U1_context = Some \<lparr>user_id = ''U1''\<rparr>"
  by (simp add: U1_context_def)

section \<open>The connection registry\<close>

lemma lookup_own:
  "activeSocketsByUser srv userId = Some socketList \<Longrightarrow> lookupSockets srv userId = Sockets socketList"
  by (simp add: lookupSockets_def)

lemma lookup_plain:
  "userId \<notin> set Object_prototype_names \<Longrightarrow>
     lookupSockets srv userId =
       (case activeSocketsByUser srv userId of
          None \<Rightarrow> Undefined | Some socketList \<Rightarrow> Sockets socketList)"
  by (simp add: lookupSockets_def split: option.splits)







text \<open>Registration under a user whose id is no inherited name appends.\<close>

lemma register_appends:
  assumes "user ctx = Some u" and "user_id u \<notin> set Object_prototype_names"
  shows "\<exists>srv'. registerClientSocket srv ctx w = Inr srv'
    \<and> sessions srv' (user_id u) = sessions srv (user_id u) @ [w]
    \<and> (\<forall>other. other \<noteq> user_id u \<longrightarrow> sessions srv' other = sessions srv other)"
  using assms
  by (auto simp: registerClientSocket_def lookup_plain sessions_def split: option.splits)





lemma multicast_sends:
  "user ctx = Some u \<Longrightarrow>
     fst (deliverMessage srv ctx msg True)
       = map (\<lambda>w. WsSend w (JSON_stringify msg None)) (sessions srv (user_id u))"
  by (simp add: deliverMessage_def sessions_def lookupSockets_def split: option.splits)

lemma count_sends: "length (filter (is_send_to w) (map (\<lambda>w. WsSend w text) l)) = count_list l w"
  by (induction l) auto

lemma multicast_copies:
  "user ctx = Some u \<Longrightarrow>
     length (filter (is_send_to w) (fst (deliverMessage srv ctx msg True)))
       = count_list (sessions srv (user_id u)) w"
  using count_sends [of w "JSON_stringify msg None" "sessions srv (user_id u)"]
  by (simp add: multicast_sends)

lemma count_remove1: "w \<in> set l \<Longrightarrow> count_list (remove1 w l) w = count_list l w - 1"
  by (induction l) auto

lemma count_gt_one:
  assumes "1 < count_list l w"
  shows "w \<in> set l" and "1 < length l" and "w \<in> set (remove1 w l)"
proof -
  show mem: "w \<in> set l"
    using assms count_list_0_iff [of l w] by (cases "w \<in> set l") auto
  show "1 < length l"
    using assms count_le_length [of l w] by simp
  have "0 < count_list (remove1 w l) w"
    using assms mem by (simp add: count_remove1)
  then show "w \<in> set (remove1 w l)"
    using count_list_0_iff [of "remove1 w l" w] by (cases "w \<in> set (remove1 w l)") auto
qed




text \<open>
  Claim C10. When a connection occurs more than once in the list of a user, one
  unregistration takes exactly one occurrence out: the connection is still in the
  list, and a multicast to the user still sends to it.
\<close>

theorem duplicate_survives_unregister:
  assumes "user ctx = Some u"
    and "activeSocketsByUser srv (user_id u) = Some socketList"
    and "1 < count_list socketList w"
  shows "\<exists>srv'. unregisterClientSocket srv ctx w = Inr srv'
    \<and> activeSocketsByUser srv' (user_id u) = Some (remove1 w socketList)
    \<and> count_list (remove1 w socketList) w = count_list socketList w - 1
    \<and> w \<in> set (sessions srv' (user_id u))
    \<and> WsSend w (JSON_stringify msg None) \<in> set (fst (deliverMessage srv' ctx msg True))
    \<and> snd (deliverMessage srv' ctx msg True) = None"
proof -
  note facts = count_gt_one [OF assms(3)]
  let ?srv' = "srv\<lparr>activeSocketsByUser :=
      (activeSocketsByUser srv)(user_id u \<mapsto> remove1 w socketList)\<rparr>"
  have un: "unregisterClientSocket srv ctx w = Inr ?srv'"
    using assms(1,2) facts(1,2) by (simp add: unregisterClientSocket_def lookup_own)
  have entry: "activeSocketsByUser ?srv' (user_id u) = Some (remove1 w socketList)"
    by simp
  have still: "w \<in> set (sessions ?srv' (user_id u))"
    using facts(3) by (simp add: sessions_def)
  have sent: "WsSend w (JSON_stringify msg None) \<in> set (fst (deliverMessage ?srv' ctx msg True))"
    using still assms(1) by (simp add: multicast_sends)
  have quiet: "snd (deliverMessage ?srv' ctx msg True) = None"
    using assms(1) by (simp add: deliverMessage_def lookup_own Let_def)
  show ?thesis
    using un entry still sent quiet facts(1) count_remove1 [of w socketList] by blast
qed

text \<open>
  After two open messages on the connection 7 the list of U1 holds it twice; once it
  has closed and been unregistered it is still registered and still sent to.
\<close>

theorem duplicate_survives_unregister_witness:
  \<open>user U1_context = Some \<lparr>user_id = ''U1''\<rparr>
   \<and> activeSocketsByUser opened_twice ''U1'' = Some [7, 7]
   \<and> 1 < count_list [7, 7] (7::nat)
   \<and> (\<exists>srv'. unregisterClientSocket opened_twice U1_context 7 = Inr srv'
        \<and> activeSocketsByUser srv' ''U1'' = Some [7]
        \<and> WsSend 7 ''{"type":"hello"}''
            \<in> set (fst (deliverMessage srv' U1_context (JObj [(''type'', JStr ''hello'')]) True)))\<close>
proof -
  have l: "activeSocketsByUser opened_twice (user_id \<lparr>user_id = ''U1''\<rparr>) = Some [7, 7]"
    by (simp add: opened_twice_sessions)
  have c: "1 < count_list [7, 7] (7::nat)"
    by simp
  from duplicate_survives_unregister
      [OF user_U1_context l c, of "JObj [(''type'', JStr ''hello'')]"]
  obtain srv' where "unregisterClientSocket opened_twice U1_context 7 = Inr srv'"
    and "activeSocketsByUser srv' ''U1'' = Some [7]"
    and \<open>WsSend 7 ''{"type":"hello"}''
        \<in> set (fst (deliverMessage srv' U1_context (JObj [(''type'', JStr ''hello'')]) True))\<close>
    unfolding stringify_hello by auto
  then show ?thesis
    using user_U1_context l c by auto
qed

section \<open>Delivery\<close>

text \<open>
  Claim C2, as stated, fails: with \<open>debug.messages.pretty\<close> set, the unicast text of
  a message is indented and its multicast text is not.
\<close>

theorem pretty_unicast_differs:
  \<open>deliverMessage opened_twice (U1_context\<lparr>configData := pretty_config\<rparr>)
      (JObj [(''type'', JStr ''open-success'')]) False
     = ([WsSend 7 ''{\<newline>   "type": "open-success"\<newline>}''], None)
   \<and> deliverMessage opened_twice (U1_context\<lparr>configData := pretty_config\<rparr>)
      (JObj [(''type'', JStr ''open-success'')]) True
     = ([WsSend 7 ''{"type":"open-success"}'', WsSend 7 ''{"type":"open-success"}''], None)
   \<and> ''{\<newline>   "type": "open-success"\<newline>}'' \<noteq> ''{"type":"open-success"}''\<close>
  by (simp add: deliverMessage_def U1_context_def lookupSockets_def opened_twice_sessions
      JSON_stringify_def quote_def quote_char_def Let_def getConfig_def pretty_config_def
      eval_nat_numeral)

text \<open>
  Claim C2, amended. In a context whose configuration does not set
  \<open>debug.messages.pretty\<close>, every text that unicast delivery of a message sends is the
  text that multicast delivery of the message sends: the compact serialisation.
\<close>

theorem unicast_matches_multicast_unless_pretty:
  assumes "\<not> truthy_opt (getConfig ctx ''debug.messages.pretty'')"
    and "WsSend w text \<in> set (fst (deliverMessage srv ctx msg False))"
    and "WsSend w' text' \<in> set (fst (deliverMessage srv ctx msg True))"
  shows "text = text' \<and> text = JSON_stringify msg None"
  using assms by (auto simp: deliverMessage_def Let_def split: option.splits slot.splits)

theorem unicast_matches_multicast_unless_pretty_witness:
  \<open>\<not> truthy_opt (getConfig U1_context ''debug.messages.pretty'')
   \<and> WsSend 7 ''{"type":"open-success"}''
       \<in> set (fst (deliverMessage opened_twice U1_context
                 (JObj [(''type'', JStr ''open-success'')]) False))
   \<and> WsSend 7 ''{"type":"open-success"}''
       \<in> set (fst (deliverMessage opened_twice U1_context
                 (JObj [(''type'', JStr ''open-success'')]) True))
   \<and> ''{"type":"open-success"}'' = JSON_stringify (JObj [(''type'', JStr ''open-success'')]) None\<close>
proof -
  have 1: "\<not> truthy_opt (getConfig U1_context ''debug.messages.pretty'')"
    by (simp add: getConfig_def U1_context_def no_config_def)
  have 2: \<open>WsSend 7 ''{"type":"open-success"}''
      \<in> set (fst (deliverMessage opened_twice U1_context
                (JObj [(''type'', JStr ''open-success'')]) False))\<close>
    by (simp add: deliverMessage_def U1_context_def getConfig_def no_config_def
        stringify_open_success)
  have 3: \<open>WsSend 7 ''{"type":"open-success"}''
      \<in> set (fst (deliverMessage opened_twice U1_context
                (JObj [(''type'', JStr ''open-success'')]) True))\<close>
    by (simp add: deliverMessage_def U1_context_def lookupSockets_def opened_twice_sessions
        stringify_open_success Let_def)
  show ?thesis
    using unicast_matches_multicast_unless_pretty [OF 1 2 3] 1 2 3 by simp
qed

section \<open>The open handshake\<close>

text \<open>
  An open message whose user identifier is authenticated, for a user whose id is no
  inherited name: the connection is appended to the user's list, whatever the list
  holds, and the context is finished without an error.
\<close>

lemma successful_open:
  assumes "onWebsocketEvent env ((ExecutionContext cfg)\<lparr>websocket := Some w\<rparr>) w = Inr ctx"
    and "JSON_parse env text = Inr msg"
    and "get_prop msg ''type'' = Some (JStr ''open'')"
    and "open_userId msg = Some userId"
    and "onWebsocketOpenRequest env ctx w userId = Inr ctx'"
    and "user ctx' = Some u"
    and "user_id u \<notin> set Object_prototype_names"
  shows "\<exists>srv' effs. handleWebsocketMessage env srv cfg w text = (srv', effs @ [Finish None], None)
    \<and> registerClientSocket srv ctx' w = Inr srv'
    \<and> effs = fst (deliverMessage srv' ctx' (JObj [(''type'', JStr ''open-success'')]) False)
    \<and> sessions srv' (user_id u) = sessions srv (user_id u) @ [w]"
proof -
  from register_appends [OF assms(6,7), of srv w] obtain srv'
    where r: "registerClientSocket srv ctx' w = Inr srv'"
      "sessions srv' (user_id u) = sessions srv (user_id u) @ [w]"
    by blast
  let ?effs = "fst (deliverMessage srv' ctx' (JObj [(''type'', JStr ''open-success'')]) False)"
  have d: "deliverMessage srv' ctx' (JObj [(''type'', JStr ''open-success'')]) False = (?effs, None)"
    by (simp add: deliverMessage_def split: option.splits)
  have "truthy msg"
    using assms(3) by (cases msg) simp_all
  then have "routeMessage env srv ctx w text = (srv', ?effs, None)"
    using assms(2-6) r(1) d by (simp add: routeMessage_def)
  then have "handleWebsocketMessage env srv cfg w text = (srv', ?effs @ [Finish None], None)"
    using assms(1) by (simp add: handleWebsocketMessage_def)
  then show ?thesis
    using r by blast
qed

text \<open>
  Claim C4, as stated, fails: after two successful open messages on the connection
  7, one multicast to the user sends two copies to that connection.
\<close>

theorem second_open_doubles_delivery:
  \<open>deliverMessage opened_twice U1_context (JObj [(''type'', JStr ''hello'')]) True
     = ([WsSend 7 ''{"type":"hello"}'', WsSend 7 ''{"type":"hello"}''], None)
   \<and> length (filter (is_send_to 7)
        (fst (deliverMessage opened_twice U1_context (JObj [(''type'', JStr ''hello'')]) True))) = 2\<close>
  by (simp add: deliverMessage_def U1_context_def lookupSockets_def opened_twice_sessions
      stringify_hello Let_def)

text \<open>
  Claim C4, amended. For a user whose id is not the name of a property that objects
  inherit, every successful open handshake on a connection appends the connection
  to the user's session list, also when it is there already: after a second
  successful open the list holds the connection twice more than before the first.
  In every multicast delivery to the user each connection receives as many copies
  of the message as it has occurrences in the list; after the two handshakes the
  connection receives two copies more.
\<close>

theorem second_open_registers_again:
  assumes "onWebsocketEvent env ((ExecutionContext cfg)\<lparr>websocket := Some w\<rparr>) w = Inr ctx"
    and "JSON_parse env text = Inr msg"
    and "get_prop msg ''type'' = Some (JStr ''open'')"
    and "open_userId msg = Some userId"
    and "onWebsocketOpenRequest env ctx w userId = Inr ctx'"
    and "user ctx' = Some u"
    and "user_id u \<notin> set Object_prototype_names"
    and "user mctx = Some u"
    and "once = fst (handleWebsocketMessage env srv cfg w text)"
    and "twice = fst (handleWebsocketMessage env once cfg w text)"
  shows "sessions once (user_id u) = sessions srv (user_id u) @ [w]
    \<and> sessions twice (user_id u) = sessions srv (user_id u) @ [w, w]
    \<and> length (filter (is_send_to w') (fst (deliverMessage srv mctx m True)))
        = count_list (sessions srv (user_id u)) w'
    \<and> length (filter (is_send_to w) (fst (deliverMessage twice mctx m True)))
        = count_list (sessions srv (user_id u)) w + 2"
proof -
  have first: "sessions once (user_id u) = sessions srv (user_id u) @ [w]"
    using successful_open [OF assms(1-7), of srv] assms(9) by auto
  have "sessions twice (user_id u) = sessions once (user_id u) @ [w]"
    using successful_open [OF assms(1-7), of once] assms(10) by auto
  then have second: "sessions twice (user_id u) = sessions srv (user_id u) @ [w, w]"
    using first by simp
  have copies: "length (filter (is_send_to w) (fst (deliverMessage twice mctx m True)))
      = count_list (sessions srv (user_id u)) w + 2"
    using multicast_copies [OF assms(8), of w twice m] second by simp
  show ?thesis
    using first second copies multicast_copies [OF assms(8), of w' srv m] by simp
qed

text \<open>
  Two open messages of the user U1 on the connection 7, from the empty registry:
  the list is 7 twice, and a multicast sends the connection two copies.
\<close>

theorem second_open_registers_again_witness:
  "''U1'' \<notin> set Object_prototype_names
   \<and> user U1_context = Some \<lparr>user_id = ''U1''\<rparr>
   \<and> sessions (fst (handleWebsocketMessage accepting_env new_Server no_config 7 open_U1_text))
       ''U1'' = [7]
   \<and> sessions opened_twice ''U1'' = [7, 7]
   \<and> length (filter (is_send_to 7)
        (fst (deliverMessage new_Server U1_context (JObj [(''type'', JStr ''ready'')]) True))) = 0
   \<and> length (filter (is_send_to 7)
        (fst (deliverMessage opened_twice U1_context (JObj [(''type'', JStr ''ready'')]) True))) = 2"
proof -
  let ?ctx = "(ExecutionContext no_config)\<lparr>websocket := Some 7\<rparr>"
  let ?ctx' = "?ctx\<lparr>user := Some \<lparr>user_id = ''U1''\<rparr>\<rparr>"
  have 1: "onWebsocketEvent accepting_env ?ctx 7 = Inr ?ctx"
    by (simp add: accepting_env_def)
  have 2: "JSON_parse accepting_env open_U1_text = Inr open_U1"
    by (simp add: accepting_env_def parse_table_def)
  have 3: "get_prop open_U1 ''type'' = Some (JStr ''open'')"
    by (simp add: open_U1_def)
  have 4: "open_userId open_U1 = Some (JStr ''U1'')"
    by (simp add: open_U1_def open_userId_def)
  have 5: "onWebsocketOpenRequest accepting_env ?ctx 7 (JStr ''U1'') = Inr ?ctx'"
    by (simp add: accepting_env_def)
  have 6: "user ?ctx' = Some \<lparr>user_id = ''U1''\<rparr>"
    by simp
  have 7: "user_id \<lparr>user_id = ''U1''\<rparr> \<notin> set Object_prototype_names"
    using U1_plain by simp
  have e: "sessions new_Server ''U1'' = []"
    by (simp add: sessions_def new_Server_def)
  show ?thesis
    using second_open_registers_again
      [OF 1 2 3 4 5 6 7 user_U1_context refl opened_twice_def,
       of 7 "JObj [(''type'', JStr ''ready'')]"]
      U1_plain user_U1_context e
    by simp
qed

text \<open>
  Claim C3 fails on the code. An open message carries a user identifier and the
  user manager is asked to authenticate it; when it throws, or returns without a
  user on the context, nothing is registered and no frame is sent: the context is
  finished and that is all. The \<open>open-failed\<close> message is only sent for an open
  message without a user identifier.
\<close>

theorem failed_open_sends_nothing:
  assumes "onWebsocketEvent env ((ExecutionContext cfg)\<lparr>websocket := Some w\<rparr>) w = Inr ctx"
    and "JSON_parse env text = Inr msg"
    and "get_prop msg ''type'' = Some (JStr ''open'')"
    and "open_userId msg = Some userId"
    and "(case onWebsocketOpenRequest env ctx w userId of
            Inl e \<Rightarrow> True | Inr ctx' \<Rightarrow> user ctx' = None)"
  shows "handleWebsocketMessage env srv cfg w text =
      (srv,
       (case onWebsocketOpenRequest env ctx w userId of
          Inl e \<Rightarrow> [LogWarn ''Exception handling client message'', Finish (Some e)]
        | Inr ctx' \<Rightarrow> [Finish None]),
       None)"
proof -
  have t: "truthy msg"
    using assms(3) by (cases msg) simp_all
  show ?thesis
  proof (cases "onWebsocketOpenRequest env ctx w userId")
    case (Inl e)
    then have "routeMessage env srv ctx w text = (srv, [], Some e)"
      using t assms(2-4) by (simp add: routeMessage_def)
    then show ?thesis
      using assms(1) Inl by (simp add: handleWebsocketMessage_def)
  next
    case (Inr ctx')
    then have "user ctx' = None"
      using assms(5) by simp
    then have "routeMessage env srv ctx w text = (srv, [], None)"
      using t assms(2-4) Inr by (simp add: routeMessage_def)
    then show ?thesis
      using assms(1) Inr by (simp add: handleWebsocketMessage_def)
  qed
qed

text \<open>
  The open message of the user U1 on the connection 7, a user manager that
  authenticates nobody: no frame, no registration.
\<close>

theorem failed_open_sends_nothing_witness:
  "handleWebsocketMessage rejecting_env new_Server no_config 7 open_U1_text
     = (new_Server, [Finish None], None)"
proof -
  let ?ctx = "(ExecutionContext no_config)\<lparr>websocket := Some 7\<rparr>"
  have 1: "onWebsocketEvent rejecting_env ?ctx 7 = Inr ?ctx"
    by (simp add: rejecting_env_def accepting_env_def)
  have 2: "JSON_parse rejecting_env open_U1_text = Inr open_U1"
    by (simp add: rejecting_env_def accepting_env_def parse_table_def)
  have 3: "get_prop open_U1 ''type'' = Some (JStr ''open'')"
    by (simp add: open_U1_def)
  have 4: "open_userId open_U1 = Some (JStr ''U1'')"
    by (simp add: open_U1_def open_userId_def)
  have r: "onWebsocketOpenRequest rejecting_env ?ctx 7 (JStr ''U1'') = Inr ?ctx"
    by (simp add: rejecting_env_def accepting_env_def)
  have 5: "(case onWebsocketOpenRequest rejecting_env ?ctx 7 (JStr ''U1'') of
              Inl e \<Rightarrow> True | Inr ctx' \<Rightarrow> user ctx' = None)"
    unfolding r by (simp add: ExecutionContext_def)
  show ?thesis
    using failed_open_sends_nothing [OF 1 2 3 4 5, of new_Server] unfolding r by simp
qed

section \<open>The HTTP dispatcher\<close>

text \<open>
  Claim C1, as stated, fails: the body of the 500 response holds the text of the
  error that the handler threw.
\<close>

theorem internal_error_body_leaks:
  \<open>handleHttpRequest no_hydration failing_handler no_config False None
     = [SetHeader ''Cache-Control'' ''no-cache, no-store, max-age=0, must-revalidate'',
        LogError (JsError ''Error'' ''connect ECONNREFUSED db.internal:27017''),
        SetHeader ''Content-Type'' ''text/plain'', Status 500,
        Send ''Internal server error: "Error: connect ECONNREFUSED db.internal:27017"'',
        Finish (Some (JsError ''Error'' ''connect ECONNREFUSED db.internal:27017''))]
   \<and> sublist (toString (JsError ''Error'' ''connect ECONNREFUSED db.internal:27017''))
        ''Internal server error: "Error: connect ECONNREFUSED db.internal:27017"''\<close>
  by code_simp

text \<open>
  Claim C1, amended. When the hydration hook or the handler throws, the dispatcher
  logs the error, answers with the status 500 and the body \<open>Internal server error: \<close>
  followed by the JSON string of the error's own text, and finishes the context with
  that error. Before that it has only set the cache header, for a route that is not
  cacheable, and done what the handler did.
\<close>

theorem internal_error_response:
  assumes "hook (ExecutionContext cfg) = Inl err
      \<or> (\<exists>ctx. hook (ExecutionContext cfg) = Inr ctx \<and> snd (handler ctx) = Rejected err)"
  shows "handleHttpRequest hook handler cfg cacheable contentType
      = (if cacheable then []
         else [SetHeader ''Cache-Control'' ''no-cache, no-store, max-age=0, must-revalidate''])
        @ (case hook (ExecutionContext cfg) of Inl e \<Rightarrow> [] | Inr ctx \<Rightarrow> fst (handler ctx))
        @ [LogError err, SetHeader ''Content-Type'' ''text/plain'', Status 500,
           Send (''Internal server error: '' @ JSON_stringify (JStr (toString err)) None),
           Finish (Some err)]"
  using assms
  by (auto simp: handleHttpRequest_def catchHttpError_def sendInternalError_def
      split: sum.splits prod.splits promise.splits)

theorem internal_error_response_witness:
  \<open>failing_hook (ExecutionContext no_config) = Inl (JsError ''Error'' ''session store unavailable'')
   \<and> handleHttpRequest failing_hook failing_handler no_config True None
      = [LogError (JsError ''Error'' ''session store unavailable''),
         SetHeader ''Content-Type'' ''text/plain'', Status 500,
         Send ''Internal server error: "Error: session store unavailable"'',
         Finish (Some (JsError ''Error'' ''session store unavailable''))]\<close>
proof -
  have h: "failing_hook (ExecutionContext no_config)
      = Inl (JsError ''Error'' ''session store unavailable'')"
    by (simp add: failing_hook_def)
  have t: \<open>''Internal server error: ''
        @ JSON_stringify (JStr (toString (JsError ''Error'' ''session store unavailable''))) None
      = ''Internal server error: "Error: session store unavailable"''\<close>
    by (simp add: JSON_stringify_def quote_def quote_char_def)
  have \<open>handleHttpRequest failing_hook failing_handler no_config True None
      = [LogError (JsError ''Error'' ''session store unavailable''),
         SetHeader ''Content-Type'' ''text/plain'', Status 500,
         Send ''Internal server error: "Error: session store unavailable"'',
         Finish (Some (JsError ''Error'' ''session store unavailable''))]\<close>
    using internal_error_response
      [where hook = failing_hook and handler = failing_handler and cfg = no_config
         and err = "JsError ''Error'' ''session store unavailable''" and cacheable = True
         and contentType = None, unfolded t]
      h by simp
  then show ?thesis
    using h by simp
qed

section \<open>The authorisation callback\<close>

text \<open>
  What holds of claim C5: a callback without a code, or whose state parses to a
  value without a user id or without a service list, is answered with the status
  400, and the provider is not called.
\<close>

lemma callback_client_errors:
  assumes "\<not> truthy_str (query req ''code'')
      \<or> (\<exists>st. parse env (case query req ''state'' of None \<Rightarrow> ''undefined'' | Some s \<Rightarrow> s) = Inr st
            \<and> (\<not> truthy st \<or> \<not> truthy_opt (get_prop st ''braidUserId'')
                \<or> \<not> truthy_opt (get_prop st ''services'')))"
  shows "\<exists>text. handleServiceAuthCallback env req
      = ([], Resolved \<lparr>json = None, statusCode = Some 400, message = Some text,
                       redirectUrl = None\<rparr>)"
  using assms
  by (auto simp: handleServiceAuthCallback_def clientError_def split: option.splits sum.splits)

text \<open>
  Claim C5 fails on the code for a state that does not parse (a missing state
  among them). \<open>JSON.parse\<close> throws before the state is tested: the handler's promise
  is rejected with the syntax error, without any call to the provider, and the
  dispatcher answers with the status 500, not with a client error.
\<close>

theorem unparseable_state_is_internal_error:
  assumes "query req ''code'' = Some code" and "code \<noteq> []"
    and "parse env (case query req ''state'' of None \<Rightarrow> ''undefined'' | Some s \<Rightarrow> s) = Inl e"
    and "hook (ExecutionContext cfg) = Inr ctx"
  shows "handleServiceAuthCallback env req = ([], Rejected e)
    \<and> handleHttpRequest hook (\<lambda>c. handleServiceAuthCallback env req) cfg False None
        = [SetHeader ''Cache-Control'' ''no-cache, no-store, max-age=0, must-revalidate'',
           LogError e, SetHeader ''Content-Type'' ''text/plain'', Status 500,
           Send (''Internal server error: '' @ JSON_stringify (JStr (toString e)) None),
           Finish (Some e)]"
proof -
  have "handleServiceAuthCallback env req = ([], Rejected e)"
    using assms(1-3) by (simp add: handleServiceAuthCallback_def)
  then show ?thesis
    using assms(4) by (simp add: handleHttpRequest_def catchHttpError_def sendInternalError_def)
qed

text \<open>The callback with a code and no state parameter.\<close>

theorem unparseable_state_is_internal_error_witness:
  \<open>handleServiceAuthCallback example_google_env (query_of [(''code'', ''4/abc'')])
     = ([], Rejected (JsError ''SyntaxError'' ''Unexpected token''))
   \<and> handleHttpRequest no_hydration
        (\<lambda>c. handleServiceAuthCallback example_google_env (query_of [(''code'', ''4/abc'')]))
        no_config False None
      = [SetHeader ''Cache-Control'' ''no-cache, no-store, max-age=0, must-revalidate'',
         LogError (JsError ''SyntaxError'' ''Unexpected token''),
         SetHeader ''Content-Type'' ''text/plain'', Status 500,
         Send ''Internal server error: "SyntaxError: Unexpected token"'',
         Finish (Some (JsError ''SyntaxError'' ''Unexpected token''))]\<close>
proof -
  have 1: "query (query_of [(''code'', ''4/abc'')]) ''code'' = Some ''4/abc''"
    by (simp add: query_of_def)
  have 2: "''4/abc'' \<noteq> []"
    by simp
  have 3: "parse example_google_env
      (case query (query_of [(''code'', ''4/abc'')]) ''state'' of
         None \<Rightarrow> ''undefined'' | Some s \<Rightarrow> s)
        = Inl (JsError ''SyntaxError'' ''Unexpected token'')"
    by (simp add: query_of_def example_google_env_def parse_table_def)
  have 4: "no_hydration (ExecutionContext no_config) = Inr (ExecutionContext no_config)"
    by (simp add: no_hydration_def)
  have t: \<open>''Internal server error: ''
        @ JSON_stringify (JStr (toString (JsError ''SyntaxError'' ''Unexpected token''))) None
      = ''Internal server error: "SyntaxError: Unexpected token"''\<close>
    by (simp add: JSON_stringify_def quote_def quote_char_def)
  show ?thesis
    by (rule unparseable_state_is_internal_error
        [where hook = no_hydration, OF 1 2 3 4, unfolded t])
qed

section \<open>The authorisation request\<close>

lemma dedup_first_snoc:
  "dedup_first (xs @ [a]) = (if a \<in> set xs then dedup_first xs else dedup_first xs @ [a])"
  by (simp add: dedup_first_def)

lemma set_dedup_first: "set (dedup_first xs) = set xs"
  by (simp add: dedup_first_def)

lemma distinct_dedup_first: "distinct (dedup_first xs)"
  by (simp add: dedup_first_def)

lemma dedup_first_distinct: "distinct xs \<Longrightarrow> dedup_first xs = xs"
  by (simp add: dedup_first_def distinct_remdups_id)

lemma dedup_first_absorb: "dedup_first (dedup_first xs @ ys) = dedup_first (xs @ ys)"
proof (induction ys rule: rev_induct)
  case Nil
  then show ?case
    by (simp add: dedup_first_distinct distinct_dedup_first)
next
  case (snoc y ys)
  have "dedup_first ((dedup_first xs @ ys) @ [y]) = dedup_first ((xs @ ys) @ [y])"
    unfolding dedup_first_snoc using snoc.IH by (simp add: set_dedup_first)
  then show ?case by simp
qed

text \<open>\<open>addScopes\<close> on a list without duplicates is the ordered union.\<close>

lemma addScopes_dedup:
  "distinct scopes \<Longrightarrow> addScopes scopes add = dedup_first (scopes @ add)"
proof (induction add arbitrary: scopes)
  case Nil
  then show ?case
    by (simp add: addScopes_def dedup_first_distinct)
next
  case (Cons a add)
  let ?next = "if a \<in> set scopes then scopes else scopes @ [a]"
  have d: "distinct ?next"
    using Cons.prems by simp
  have n: "?next = dedup_first (scopes @ [a])"
    using Cons.prems by (simp add: dedup_first_snoc dedup_first_distinct)
  have "addScopes scopes (a # add) = addScopes ?next add"
    by (simp add: addScopes_def)
  also have "\<dots> = dedup_first (?next @ add)"
    using Cons.IH [OF d] .
  also have "\<dots> = dedup_first (dedup_first (scopes @ [a]) @ add)"
    using n by simp
  also have "\<dots> = dedup_first (scopes @ a # add)"
    by (simp add: dedup_first_absorb)
  finally show ?case .
qed

lemma declared_unrecognized:
  "\<not> recognized env serviceId \<Longrightarrow> declared_scopes env serviceId = []"
  by (simp add: recognized_def declared_scopes_def)

lemma scopeStep_declared:
  "scopeStep env serviceId (scopes, accepted) =
     (addScopes scopes (declared_scopes env serviceId),
      accepted @ (if recognized env serviceId then [serviceId] else []))"
  by (simp add: scopeStep_def declared_scopes_def recognized_def addScopes_def)

lemma fold_scopeStep:
  "distinct scopes \<Longrightarrow>
   fold (scopeStep env) ids (scopes, accepted) =
     (dedup_first (scopes @ concat (map (declared_scopes env) ids)),
      accepted @ filter (recognized env) ids)"
proof (induction ids arbitrary: scopes accepted)
  case Nil
  then show ?case by (simp add: dedup_first_distinct)
next
  case (Cons serviceId ids)
  have d: "distinct (addScopes scopes (declared_scopes env serviceId))"
    using Cons.prems by (simp add: addScopes_dedup distinct_dedup_first)
  show ?case
    using Cons.IH [OF d] Cons.prems
    by (simp add: scopeStep_declared addScopes_dedup dedup_first_absorb)
qed

lemma concat_declared_filter:
  "concat (map (declared_scopes env) (filter (recognized env) ids))
     = concat (map (declared_scopes env) ids)"
  by (induction ids) (simp_all add: declared_unrecognized)

lemma distinct_base_scopes: "distinct base_scopes"
  by (simp add: base_scopes_def)

lemma authUrlOptions_eq:
  "authUrlOptions env braidUserId callbackUrl serviceIdString =
     \<lparr>access_type = ''offline'',
      scope = dedup_first (base_scopes
        @ concat (map (declared_scopes env)
            (filter (recognized env) (split CHR '','' serviceIdString)))),
      state = JSON_stringify
        (JObj [(''braidUserId'', JStr braidUserId),
               (''services'',
                JArr (map JStr (filter (recognized env) (split CHR '','' serviceIdString)))),
               (''clientCallback'', JStr callbackUrl)]) None\<rparr>"
  by (simp add: authUrlOptions_def fold_scopeStep [OF distinct_base_scopes]
      concat_declared_filter)

text \<open>
  Claim C6. A request with a user id, a callback and a list of service ids is
  answered with a redirect to the URL generated from these options: the scopes are
  the two base scopes followed by the declared scopes of the recognised ids, in
  order and each once; the state holds the recognised ids, as they were requested,
  and no other. When no id is recognised the scopes are the base scopes and the
  accepted list is empty, and the answer is still the redirect.
\<close>

theorem auth_request_scopes:
  assumes "query req ''braidUserId'' = Some braidUserId" and "braidUserId \<noteq> []"
    and "query req ''callback'' = Some callbackUrl" and "callbackUrl \<noteq> []"
    and "query req ''serviceIds'' = Some serviceIdString" and "serviceIdString \<noteq> []"
    and "ids = split CHR '','' serviceIdString"
    and "opts = authUrlOptions env braidUserId callbackUrl serviceIdString"
  shows "handleServiceAuthRequest env req
        = \<lparr>json = None, statusCode = None, message = None,
           redirectUrl = Some (generateAuthUrl env opts)\<rparr>
    \<and> (generateAuthUrl env opts \<noteq> [] \<longrightarrow>
          writeResult (handleServiceAuthRequest env req) contentType
            = [Redirect (generateAuthUrl env opts)])
    \<and> scope opts = dedup_first (base_scopes
          @ concat (map (declared_scopes env) (filter (recognized env) ids)))
    \<and> distinct (scope opts)
    \<and> set (scope opts) = set base_scopes
          \<union> (\<Union>serviceId \<in> {s \<in> set ids. recognized env s}. set (declared_scopes env serviceId))
    \<and> state opts = JSON_stringify
          (JObj [(''braidUserId'', JStr braidUserId),
                 (''services'', JArr (map JStr (filter (recognized env) ids))),
                 (''clientCallback'', JStr callbackUrl)]) None
    \<and> ((\<forall>serviceId \<in> set ids. \<not> recognized env serviceId) \<longrightarrow>
          scope opts = base_scopes
          \<and> state opts = JSON_stringify
              (JObj [(''braidUserId'', JStr braidUserId), (''services'', JArr []),
                     (''clientCallback'', JStr callbackUrl)]) None)"
proof -
  have redirect: "handleServiceAuthRequest env req
      = \<lparr>json = None, statusCode = None, message = None,
         redirectUrl = Some (generateAuthUrl env opts)\<rparr>"
    using assms(1-6,8) by (simp add: handleServiceAuthRequest_def redirectTo_def)
  have written: "generateAuthUrl env opts \<noteq> [] \<longrightarrow>
      writeResult (handleServiceAuthRequest env req) contentType
        = [Redirect (generateAuthUrl env opts)]"
    unfolding redirect by (simp add: writeResult_def)
  have sc: "scope opts = dedup_first (base_scopes
      @ concat (map (declared_scopes env) (filter (recognized env) ids)))"
    using assms(7,8) by (simp add: authUrlOptions_eq)
  have st: "state opts = JSON_stringify
      (JObj [(''braidUserId'', JStr braidUserId),
             (''services'', JArr (map JStr (filter (recognized env) ids))),
             (''clientCallback'', JStr callbackUrl)]) None"
    using assms(7,8) by (simp add: authUrlOptions_eq)
  have dist: "distinct (scope opts)"
    using sc by (simp add: distinct_dedup_first)
  have un: "set (scope opts) = set base_scopes
      \<union> (\<Union>serviceId \<in> {s \<in> set ids. recognized env s}. set (declared_scopes env serviceId))"
    using sc by (auto simp: set_dedup_first)
  have none: "(\<forall>serviceId \<in> set ids. \<not> recognized env serviceId) \<longrightarrow>
      scope opts = base_scopes
      \<and> state opts = JSON_stringify
          (JObj [(''braidUserId'', JStr braidUserId), (''services'', JArr []),
                 (''clientCallback'', JStr callbackUrl)]) None"
  proof
    assume "\<forall>serviceId \<in> set ids. \<not> recognized env serviceId"
    then have "filter (recognized env) ids = []"
      by (simp add: filter_empty_conv)
    then show "scope opts = base_scopes
      \<and> state opts = JSON_stringify
          (JObj [(''braidUserId'', JStr braidUserId), (''services'', JArr []),
                 (''clientCallback'', JStr callbackUrl)]) None"
      using sc st by (simp add: dedup_first_distinct distinct_base_scopes)
  qed
  show ?thesis
    using redirect written sc dist un st none by blast
qed

text \<open>
  The request of the user U1 for the ids \<open>mail,unknown-id\<close>: the scopes of the mail
  sub-service after the base scopes, and \<open>mail\<close> alone accepted. The request for
  \<open>unknown-id\<close> alone: a redirect with the two base scopes and an empty accepted list.
\<close>

theorem auth_request_scopes_witness:
  \<open>\<not> recognized example_google_env ''unknown-id''
   \<and> split CHR '','' ''unknown-id'' = [''unknown-id'']
   \<and> handleServiceAuthRequest example_google_env
        (query_of [(''braidUserId'', ''U1''), (''callback'', ''https://x/cb''),
                   (''serviceIds'', ''unknown-id'')])
      = \<lparr>json = None, statusCode = None, message = None,
         redirectUrl = Some ''https://accounts.google.com/o/oauth2/auth?access_type=offline&scope=https://www.googleapis.com/auth/userinfo.email https://www.googleapis.com/auth/userinfo.profile&state={"braidUserId":"U1","services":[],"clientCallback":"https://x/cb"}''\<rparr>
   \<and> writeResult (handleServiceAuthRequest example_google_env
        (query_of [(''braidUserId'', ''U1''), (''callback'', ''https://x/cb''),
                   (''serviceIds'', ''unknown-id'')])) None
      = [Redirect ''https://accounts.google.com/o/oauth2/auth?access_type=offline&scope=https://www.googleapis.com/auth/userinfo.email https://www.googleapis.com/auth/userinfo.profile&state={"braidUserId":"U1","services":[],"clientCallback":"https://x/cb"}'']
   \<and> scope (authUrlOptions example_google_env ''U1'' ''https://x/cb'' ''unknown-id'')
      = [''https://www.googleapis.com/auth/userinfo.email'',
         ''https://www.googleapis.com/auth/userinfo.profile'']
   \<and> state (authUrlOptions example_google_env ''U1'' ''https://x/cb'' ''unknown-id'')
      = ''{"braidUserId":"U1","services":[],"clientCallback":"https://x/cb"}''
   \<and> scope (authUrlOptions example_google_env ''U1'' ''https://x/cb'' ''mail,unknown-id'')
      = [''https://www.googleapis.com/auth/userinfo.email'',
         ''https://www.googleapis.com/auth/userinfo.profile'',
         ''https://www.googleapis.com/auth/gmail.readonly'']
   \<and> state (authUrlOptions example_google_env ''U1'' ''https://x/cb'' ''mail,unknown-id'')
      = ''{"braidUserId":"U1","services":["mail"],"clientCallback":"https://x/cb"}''\<close>
proof -
  let ?req = "query_of [(''braidUserId'', ''U1''), (''callback'', ''https://x/cb''),
                        (''serviceIds'', ''unknown-id'')]"
  let ?req2 = "query_of [(''braidUserId'', ''U1''), (''callback'', ''https://x/cb''),
                         (''serviceIds'', ''mail,unknown-id'')]"
  have 1: "query ?req ''braidUserId'' = Some ''U1''" "query ?req2 ''braidUserId'' = Some ''U1''"
    by (simp_all add: query_of_def)
  have 2: "''U1'' \<noteq> []"
    by simp
  have 3: "query ?req ''callback'' = Some ''https://x/cb''"
    "query ?req2 ''callback'' = Some ''https://x/cb''"
    by (simp_all add: query_of_def)
  have 4: "''https://x/cb'' \<noteq> []"
    by simp
  have 5: "query ?req ''serviceIds'' = Some ''unknown-id''"
    "query ?req2 ''serviceIds'' = Some ''mail,unknown-id''"
    by (simp_all add: query_of_def)
  have 6: "''unknown-id'' \<noteq> []" "''mail,unknown-id'' \<noteq> []"
    by simp_all
  have ids: "split CHR '','' ''unknown-id'' = [''unknown-id'']"
    by simp
  have unknown: "\<not> recognized example_google_env ''unknown-id''"
    by code_simp
  have t: \<open>JSON_stringify
      (JObj [(''braidUserId'', JStr ''U1''), (''services'', JArr []),
             (''clientCallback'', JStr ''https://x/cb'')]) None
      = ''{"braidUserId":"U1","services":[],"clientCallback":"https://x/cb"}''\<close>
    by (simp add: JSON_stringify_def quote_def quote_char_def)
  have accepted: "filter (recognized example_google_env) (split CHR '','' ''mail,unknown-id'')
      = [''mail'']"
    by code_simp
  have scopes: "dedup_first (base_scopes @ concat (map (declared_scopes example_google_env) [''mail'']))
      = [''https://www.googleapis.com/auth/userinfo.email'',
         ''https://www.googleapis.com/auth/userinfo.profile'',
         ''https://www.googleapis.com/auth/gmail.readonly'']"
    by code_simp
  have t2: \<open>JSON_stringify
      (JObj [(''braidUserId'', JStr ''U1''), (''services'', JArr (map JStr [''mail''])),
             (''clientCallback'', JStr ''https://x/cb'')]) None
      = ''{"braidUserId":"U1","services":["mail"],"clientCallback":"https://x/cb"}''\<close>
    by (simp add: JSON_stringify_def quote_def quote_char_def)
  have url: \<open>generateAuthUrl example_google_env
      (authUrlOptions example_google_env ''U1'' ''https://x/cb'' ''unknown-id'')
      = ''https://accounts.google.com/o/oauth2/auth?access_type=offline&scope=https://www.googleapis.com/auth/userinfo.email https://www.googleapis.com/auth/userinfo.profile&state={"braidUserId":"U1","services":[],"clientCallback":"https://x/cb"}''\<close>
    by code_simp
  note unknown_request = auth_request_scopes
    [where env = example_google_env and contentType = None,
     OF 1(1) 2 3(1) 4 5(1) 6(1) refl refl]
  have r: \<open>handleServiceAuthRequest example_google_env ?req
      = \<lparr>json = None, statusCode = None, message = None,
         redirectUrl = Some (generateAuthUrl example_google_env
           (authUrlOptions example_google_env ''U1'' ''https://x/cb'' ''unknown-id''))\<rparr>\<close>
    using unknown_request by blast
  have "generateAuthUrl example_google_env
      (authUrlOptions example_google_env ''U1'' ''https://x/cb'' ''unknown-id'') \<noteq> []"
    unfolding url by simp
  then have w: "writeResult (handleServiceAuthRequest example_google_env ?req) None
      = [Redirect (generateAuthUrl example_google_env
          (authUrlOptions example_google_env ''U1'' ''https://x/cb'' ''unknown-id''))]"
    using unknown_request by blast
  have "\<forall>serviceId \<in> set (split CHR '','' ''unknown-id'').
      \<not> recognized example_google_env serviceId"
    unfolding ids using unknown by simp
  then have a: \<open>scope (authUrlOptions example_google_env ''U1'' ''https://x/cb'' ''unknown-id'')
      = base_scopes
    \<and> state (authUrlOptions example_google_env ''U1'' ''https://x/cb'' ''unknown-id'')
      = JSON_stringify
          (JObj [(''braidUserId'', JStr ''U1''), (''services'', JArr []),
                 (''clientCallback'', JStr ''https://x/cb'')]) None\<close>
    using unknown_request by blast
  have b: \<open>scope (authUrlOptions example_google_env ''U1'' ''https://x/cb'' ''mail,unknown-id'')
      = [''https://www.googleapis.com/auth/userinfo.email'',
         ''https://www.googleapis.com/auth/userinfo.profile'',
         ''https://www.googleapis.com/auth/gmail.readonly'']
    \<and> state (authUrlOptions example_google_env ''U1'' ''https://x/cb'' ''mail,unknown-id'')
      = ''{"braidUserId":"U1","services":["mail"],"clientCallback":"https://x/cb"}''\<close>
    using auth_request_scopes
      [where env = example_google_env and contentType = None,
       OF 1(2) 2 3(2) 4 5(2) 6(2) refl refl]
    unfolding accepted scopes t2 by blast
  show ?thesis
    using r w a b unknown ids unfolding url t base_scopes_def by blast
qed

section \<open>The e-mail address of a profile\<close>

text \<open>
  Claim C9. For a profile that is an object without an \<open>emails\<close> property the helper
  does not return \<open>null\<close>: it throws a type error, reading the length of the absent
  list.
\<close>

theorem getEmailFromProfile_faults:
  "getEmailFromProfile (Some (pr\<lparr>emails := None\<rparr>))
     = Inl (JsError ''TypeError'' ''Cannot read property length of undefined'')
   \<and> getEmailFromProfile (Some (pr\<lparr>emails := None\<rparr>)) \<noteq> Inr None"
  by (simp add: getEmailFromProfile_def)

theorem getEmailFromProfile_faults_witness:
  "getEmailFromProfile (Some \<lparr>emails = None\<rparr>)
     = Inl (JsError ''TypeError'' ''Cannot read property length of undefined'')"
  using getEmailFromProfile_faults [of "\<lparr>emails = None\<rparr>"] by simp

section \<open>The liveness monitor\<close>

lemma pongs_append: "pongs (xs @ ys) = pongs xs @ pongs ys"
  by (induction xs rule: pongs.induct) simp_all

lemma lastPongAfter_pongs:
  "lastPongAfter lp evs = (if pongs evs = [] then lp else last (pongs evs))"
  by (induction lp evs rule: lastPongAfter.induct) simp_all

lemma onTick_closes: "WsClose w \<in> set (onTick w P lp now) \<longleftrightarrow> P < now - lp"
  by (simp add: onTick_def)

text \<open>
  The connection is closed by the monitor exactly when, before the close event, a
  tick comes later than one period after the value of \<open>lastPong\<close> at that moment.
\<close>

lemma monitor_closes_iff:
  "WsClose w \<in> set (monitor w P lp evs) \<longleftrightarrow>
     (\<exists>i<length evs. \<exists>t. evs ! i = Tick t \<and> Closed \<notin> set (take i evs)
        \<and> P < t - lastPongAfter lp (take i evs))"
proof (induction w P lp evs rule: monitor.induct)
  case (1 w interval lastPong)
  then show ?case by simp
next
  case (2 w interval lastPong now evs)
  then show ?case
    by (simp add: onTick_closes Ex_less_Suc2)
next
  case (3 w interval lastPong now evs)
  then show ?case
    by (simp add: Ex_less_Suc2)
next
  case (4 w interval lastPong now m evs)
  then show ?case
    by (simp add: Ex_less_Suc2)
next
  case (5 w interval lastPong evs)
  then show ?case
    by (simp add: Ex_less_Suc2)
qed

lemma sorted_le_last: "sorted xs \<Longrightarrow> x \<in> set xs \<Longrightarrow> x \<le> last (xs :: rat list)"
  by (induction xs) auto

lemma never_closed:
  assumes "sorted (pongs evs)"
    and "\<forall>i<length evs. \<forall>t. evs ! i = Tick t \<longrightarrow>
           (\<exists>p\<in>set (pongs (take i evs)). t - p \<le> P)
           \<or> (pongs (take i evs) = [] \<and> t - lp \<le> P)"
  shows "WsClose w \<notin> set (monitor w P lp evs)"
proof
  assume "WsClose w \<in> set (monitor w P lp evs)"
  then obtain i t where i: "i < length evs" and t: "evs ! i = Tick t"
    and late: "P < t - lastPongAfter lp (take i evs)"
    unfolding monitor_closes_iff by blast
  have "sorted (pongs (take i evs) @ pongs (drop i evs))"
    using assms(1) pongs_append [of "take i evs" "drop i evs"] by simp
  then have srt: "sorted (pongs (take i evs))"
    by (simp add: sorted_append)
  from assms(2) i t consider
      p where "p \<in> set (pongs (take i evs))" "t - p \<le> P"
    | "pongs (take i evs) = []" "t - lp \<le> P"
    by blast
  then show False
  proof cases
    case 1
    then have "p \<le> last (pongs (take i evs))"
      using srt by (simp add: sorted_le_last)
    moreover have "lastPongAfter lp (take i evs) = last (pongs (take i evs))"
      using 1(1) by (auto simp: lastPongAfter_pongs)
    ultimately show False
      using late 1(2) by simp
  next
    case 2
    then show False
      using late by (simp add: lastPongAfter_pongs)
  qed
qed

lemma closed_after_silence:
  assumes "Closed \<notin> set evs" and "\<forall>p\<in>set (pongs evs). P < t - p" and "P < t - lp"
  shows "WsClose w \<in> set (monitor w P lp (evs @ [Tick t]))"
proof -
  have "P < t - lastPongAfter lp evs"
    using assms(2,3) by (simp add: lastPongAfter_pongs)
  then have "\<exists>i<length (evs @ [Tick t]). \<exists>t'. (evs @ [Tick t]) ! i = Tick t'
      \<and> Closed \<notin> set (take i (evs @ [Tick t]))
      \<and> P < t' - lastPongAfter lp (take i (evs @ [Tick t]))"
    using assms(1) by (intro exI [of _ "length evs"]) simp
  then show ?thesis
    unfolding monitor_closes_iff .
qed

text \<open>
  Claim C7. A configured period of zero is replaced by a day, any other is kept.
  The first value of \<open>lastPong\<close> is half a period after the start of the connection.
  A tick later than one period after \<open>lastPong\<close> closes the connection, any other
  tick sends a probe. Hence, with a clock that does not run backwards between the
  replies: a connection is never closed when every tick finds a reply at most one
  period old, or finds no reply yet and comes at most one period after the first
  deadline; and a tick that, before the close event, finds every reply and the
  first deadline more than one period old closes the connection.
\<close>

theorem liveness_monitor:
  assumes "P = pingPongInterval configured"
  shows "pingPongInterval 0 = 1000 * 60 * 60 * 24
    \<and> (configured \<noteq> 0 \<longrightarrow> P = configured)
    \<and> handleWebsockets configured w start [Tick now] = onTick w P (start + P / 2) now
    \<and> (P < now - lp \<longrightarrow> onTick w P lp now
          = [LogInfo ''Client socket being closed because of ping-pong timeout'', WsClose w])
    \<and> (now - lp \<le> P \<longrightarrow> onTick w P lp now = [WsSend w ''__ping__''])
    \<and> (sorted (pongs evs)
        \<and> (\<forall>i<length evs. \<forall>t. evs ! i = Tick t \<longrightarrow>
              (\<exists>p\<in>set (pongs (take i evs)). t - p \<le> P)
              \<or> (pongs (take i evs) = [] \<and> t - (start + P / 2) \<le> P))
        \<longrightarrow> WsClose w \<notin> set (handleWebsockets configured w start evs))
    \<and> (Closed \<notin> set evs \<and> (\<forall>p\<in>set (pongs evs). P < t - p) \<and> P < t - (start + P / 2)
        \<longrightarrow> WsClose w \<in> set (handleWebsockets configured w start (evs @ [Tick t])))"
proof -
  have seed: "handleWebsockets configured w start [Tick now] = onTick w P (start + P / 2) now"
    using assms by (simp add: handleWebsockets_def initialLastPong_def)
  have run: "\<And>es. handleWebsockets configured w start es = monitor w P (start + P / 2) es"
    using assms by (simp add: handleWebsockets_def initialLastPong_def)
  have alive: "sorted (pongs evs)
      \<and> (\<forall>i<length evs. \<forall>t. evs ! i = Tick t \<longrightarrow>
            (\<exists>p\<in>set (pongs (take i evs)). t - p \<le> P)
            \<or> (pongs (take i evs) = [] \<and> t - (start + P / 2) \<le> P))
      \<longrightarrow> WsClose w \<notin> set (handleWebsockets configured w start evs)"
    unfolding run using never_closed [of evs P "start + P / 2" w] by blast
  have dead: "Closed \<notin> set evs \<and> (\<forall>p\<in>set (pongs evs). P < t - p) \<and> P < t - (start + P / 2)
      \<longrightarrow> WsClose w \<in> set (handleWebsockets configured w start (evs @ [Tick t]))"
    unfolding run using closed_after_silence [of evs P t "start + P / 2" w] by blast
  have tick: "(P < now - lp \<longrightarrow> onTick w P lp now
          = [LogInfo ''Client socket being closed because of ping-pong timeout'', WsClose w])
    \<and> (now - lp \<le> P \<longrightarrow> onTick w P lp now = [WsSend w ''__ping__''])"
    by (simp add: onTick_def)
  have zero: "pingPongInterval 0 = 1000 * 60 * 60 * 24 \<and> (configured \<noteq> 0 \<longrightarrow> P = configured)"
    using assms by (simp add: pingPongInterval_def)
  show ?thesis
    using zero seed tick alive dead by blast
qed

text \<open>
  A period of ten seconds, a connection accepted at time 0 that answers the first
  two probes after 20 and 15 milliseconds: the third tick still sends a probe, and
  a tick at 40 seconds, with no reply since, closes the connection.
\<close>

theorem liveness_monitor_witness:
  "pingPongInterval 10000 = 10000
   \<and> sorted (pongs answering_client)
   \<and> Closed \<notin> set answering_client
   \<and> onTick 7 10000 5000 10000 = [WsSend 7 ''__ping__'']
   \<and> onTick 7 10000 5000 20000
       = [LogInfo ''Client socket being closed because of ping-pong timeout'', WsClose 7]
   \<and> WsClose 7 \<notin> set (handleWebsockets 10000 7 0 answering_client)
   \<and> WsClose 7 \<in> set (handleWebsockets 10000 7 0 (answering_client @ [Tick 40000]))"
proof -
  have P: "(10000::rat) = pingPongInterval 10000"
    by (simp add: pingPongInterval_def)
  have p: "pongs answering_client = [10020, 20015]"
    by (simp add: answering_client_def)
  have srt: "sorted (pongs answering_client)"
    unfolding p by simp
  have open_: "Closed \<notin> set answering_client"
    by (simp add: answering_client_def)
  have replies: "\<forall>i<length answering_client. \<forall>t. answering_client ! i = Tick t \<longrightarrow>
      (\<exists>p\<in>set (pongs (take i answering_client)). t - p \<le> 10000)
      \<or> (pongs (take i answering_client) = [] \<and> t - (0 + 10000 / 2) \<le> (10000::rat))"
    by (simp add: answering_client_def All_less_Suc2)
  have silence: "(\<forall>p\<in>set (pongs answering_client). (10000::rat) < 40000 - p)
      \<and> (10000::rat) < 40000 - (0 + 10000 / 2)"
    unfolding p by simp
  have a: "WsClose 7 \<notin> set (handleWebsockets 10000 7 0 answering_client)
      \<and> WsClose 7 \<in> set (handleWebsockets 10000 7 0 (answering_client @ [Tick 40000]))
      \<and> onTick 7 10000 5000 10000 = [WsSend 7 ''__ping__'']"
    using liveness_monitor [OF P, of 7 0 10000 5000 answering_client 40000]
      srt open_ replies silence
    by simp
  have b: "onTick 7 10000 5000 20000
      = [LogInfo ''Client socket being closed because of ping-pong timeout'', WsClose 7]"
    using liveness_monitor [OF P, of 7 0 20000 5000 "[]" 0] by simp
  show ?thesis
    using a b srt open_ P by simp
qed

end
